theory Spec2Isabelle
  imports Complex_Main "HOL-Library.Word" "HOL-Library.Sublist"
begin

section \<open>The C++ wrapper of plotffi (examples/plotffi.hpp)\<close>

text \<open>
  The wrapper stores and copies doubles and never computes with them, so the type of
  doubles is the type parameter \<open>'d\<close> throughout: every theorem about the wrapper holds
  for any representation of a double (NaN and the infinities included). The defaults
  \<open>0.0\<close> and \<open>1.0\<close> are \<open>0\<close> and \<open>1\<close> of that type. \<open>uint32_t\<close> is \<open>32 word\<close>,
  and the C \<open>int\<close> status of \<open>plot_scatter_png\<close> is a \<open>32 word\<close> too (it is only
  compared with 0).
\<close>

type_synonym uint32_t = "32 word"
type_synonym c_int = "32 word"

subsection \<open>The C struct PlotOptions\<close>

text \<open>
  Modelled from the spec: the C header \<open>plotffi.h\<close> that declares \<open>PlotOptions\<close> is not
  among the sources. The fields are those the wrapper assigns (lines 182 to 189), with the
  types of section 6 of the specification (\<open>u32\<close> sizes, \<open>f64\<close> bounds). The C type of
  \<open>auto_range\<close> is left open as the type parameter \<open>'i\<close>: the sources only ever assign
  the literals 1 and 0 to it.
\<close>

record ('i, 'd) PlotOptions =
  width :: uint32_t
  height :: uint32_t
  marker_radius :: uint32_t
  auto_range :: 'i
  x_min :: 'd
  x_max :: 'd
  y_min :: 'd
  y_max :: 'd

subsection \<open>struct ScatterOptions (lines 137 to 192)\<close>

record 'd ScatterOptions =
  width :: uint32_t
  height :: uint32_t
  markerRadius :: uint32_t
  autoRange :: bool
  xMin :: 'd
  xMax :: 'd
  yMin :: 'd
  yMax :: 'd

text \<open>The default member initialisers: what \<open>ScatterOptions()\<close> constructs.\<close>

definition ScatterOptions_default :: "('d::zero_neq_one) ScatterOptions" where
  "ScatterOptions_default =
     \<lparr> ScatterOptions.width = 800,
       ScatterOptions.height = 600,
       markerRadius = 5,
       autoRange = True,
       xMin = 0,
       xMax = 1,
       yMin = 0,
       yMax = 1 \<rparr>"

text \<open>
  The setters assign to the members of \<open>*this\<close> and return \<open>*this\<close>: the object is
  passed in and the updated object is returned. None of them has a failing path.
\<close>

definition setSize :: "uint32_t \<Rightarrow> uint32_t \<Rightarrow> 'd ScatterOptions \<Rightarrow> 'd ScatterOptions" where
  "setSize w h this = this\<lparr> ScatterOptions.width := w, ScatterOptions.height := h \<rparr>"

definition setMarkerRadius :: "uint32_t \<Rightarrow> 'd ScatterOptions \<Rightarrow> 'd ScatterOptions" where
  "setMarkerRadius radius this = this\<lparr> markerRadius := radius \<rparr>"

definition setAutoRange :: "bool \<Rightarrow> 'd ScatterOptions \<Rightarrow> 'd ScatterOptions" where
  "setAutoRange enabled this = this\<lparr> autoRange := enabled \<rparr>"

definition setXRange :: "'d \<Rightarrow> 'd \<Rightarrow> 'd ScatterOptions \<Rightarrow> 'd ScatterOptions" where
  "setXRange mn mx this = this\<lparr> xMin := mn, xMax := mx, autoRange := False \<rparr>"

definition setYRange :: "'d \<Rightarrow> 'd \<Rightarrow> 'd ScatterOptions \<Rightarrow> 'd ScatterOptions" where
  "setYRange mn mx this = this\<lparr> yMin := mn, yMax := mx, autoRange := False \<rparr>"

text \<open>\<open>toCOptions\<close> is a \<open>const\<close> member: it reads the object and builds a fresh struct.\<close>

definition toCOptions :: "'d ScatterOptions \<Rightarrow> ('i::zero_neq_one, 'd) PlotOptions" where
  "toCOptions this =
     \<lparr> PlotOptions.width = ScatterOptions.width this,
       PlotOptions.height = ScatterOptions.height this,
       marker_radius = markerRadius this,
       auto_range = (if autoRange this then 1 else 0),
       x_min = xMin this,
       x_max = xMax this,
       y_min = yMin this,
       y_max = yMax this \<rparr>"

subsection \<open>The foreign library and scatterPng (lines 203 to 235)\<close>

datatype PlotError = PlotError string

text \<open>
  \<open>plot_scatter_png\<close> and \<open>plot_last_error_message\<close> are foreign functions of the
  shared library; the wrapper only calls them. They are parameters of the model: any
  pair of functions over a state \<open>'w\<close> of the outside world (the file system and the
  library's last-error slot). \<open>plot_scatter_png\<close> gets the path, the two arrays, the
  count and the options and returns the status; \<open>plot_last_error_message\<close> returns a
  C string or the null pointer (\<open>None\<close>).
\<close>

record ('i, 'd, 'w) plotffi =
  plot_scatter_png ::
    "string \<Rightarrow> 'd list \<Rightarrow> 'd list \<Rightarrow> nat \<Rightarrow> ('i, 'd) PlotOptions \<Rightarrow> 'w \<Rightarrow> c_int \<times> 'w"
  plot_last_error_message :: "'w \<Rightarrow> string option \<times> 'w"

text \<open>
  To say which foreign calls a run of the wrapper makes, the state it threads holds the
  world together with the log of the foreign calls made so far, in order.
\<close>

datatype ('i, 'd) ffi_call =
    Plot_scatter_png string "'d list" "'d list" nat "('i, 'd) PlotOptions"
  | Plot_last_error_message

record ('i, 'd, 'w) process =
  world :: 'w
  calls :: "('i, 'd) ffi_call list"

definition call_plot_scatter_png ::
  "('i, 'd, 'w) plotffi \<Rightarrow> string \<Rightarrow> 'd list \<Rightarrow> 'd list \<Rightarrow> nat \<Rightarrow> ('i, 'd) PlotOptions
     \<Rightarrow> ('i, 'd, 'w) process \<Rightarrow> c_int \<times> ('i, 'd, 'w) process" where
  "call_plot_scatter_png lib path xs ys n opt st =
     (case plot_scatter_png lib path xs ys n opt (world st) of
        (result, w) \<Rightarrow>
          (result, \<lparr> world = w, calls = calls st @ [Plot_scatter_png path xs ys n opt] \<rparr>))"

definition call_plot_last_error_message ::
  "('i, 'd, 'w) plotffi \<Rightarrow> ('i, 'd, 'w) process \<Rightarrow> string option \<times> ('i, 'd, 'w) process" where
  "call_plot_last_error_message lib st =
     (case plot_last_error_message lib (world st) of
        (msg, w) \<Rightarrow> (msg, \<lparr> world = w, calls = calls st @ [Plot_last_error_message] \<rparr>))"

text \<open>
  \<open>scatterPng\<close>: a thrown \<open>PlotError\<close> is \<open>Inl\<close>, a normal return is \<open>Inr ()\<close>.
  \<open>xs.size()\<close> is \<open>length xs\<close>; \<open>xs.data()\<close> and \<open>ys.data()\<close> are the arrays
  themselves.
\<close>

definition scatterPng ::
  "('i::zero_neq_one, 'd, 'w) plotffi \<Rightarrow> string \<Rightarrow> 'd list \<Rightarrow> 'd list \<Rightarrow> 'd ScatterOptions
     \<Rightarrow> ('i, 'd, 'w) process \<Rightarrow> (PlotError + unit) \<times> ('i, 'd, 'w) process" where
  "scatterPng lib path xs ys options st =
     (if length xs \<noteq> length ys then
        (Inl (PlotError ''X and Y coordinate vectors must have the same size''), st)
      else if xs = [] then
        (Inl (PlotError ''Cannot create scatter plot with zero points''), st)
      else
        (let cOpt = toCOptions options in
         case call_plot_scatter_png lib path xs ys (length xs) cOpt st of
           (result, st1) \<Rightarrow>
             if result \<noteq> 0 then
               (case call_plot_last_error_message lib st1 of
                  (errorMsg, st2) \<Rightarrow>
                    (case errorMsg of
                       Some msg \<Rightarrow> (Inl (PlotError (''Plot failed: '' @ msg)), st2)
                     | None \<Rightarrow> (Inl (PlotError ''Plot failed with unknown error''), st2)))
             else (Inr (), st1)))"

subsection \<open>Two stand-ins for the library, for concrete runs\<close>

text \<open>
  \<open>lib_reporting\<close> behaves like a library with a last-error slot (the world is the
  slot): it rejects a zero width or height with status 1 and a message and accepts
  everything else with status 0. \<open>lib_silent\<close> always fails with status 1 and never
  has a message.
\<close>

definition lib_reporting :: "(c_int, 'd, string option) plotffi" where
  "lib_reporting =
     \<lparr> plot_scatter_png = (\<lambda>path xs ys n opt w.
         if PlotOptions.width opt = 0 \<or> PlotOptions.height opt = 0
         then (1, Some ''width and height must be positive'')
         else (0, None)),
       plot_last_error_message = (\<lambda>w. (w, w)) \<rparr>"

definition lib_silent :: "(c_int, 'd, unit) plotffi" where
  "lib_silent =
     \<lparr> plot_scatter_png = (\<lambda>path xs ys n opt w. (1, w)),
       plot_last_error_message = (\<lambda>w. (None, w)) \<rparr>"

definition start :: "'w \<Rightarrow> ('i, 'd, 'w) process" where
  "start w = \<lparr> world = w, calls = [] \<rparr>"

section \<open>The Range Resolver of the renderer\<close>

text \<open>
  Modelled from the spec: the renderer behind \<open>plot_scatter_png\<close> (the Range Resolver
  of section 4.1) is not among the sources. The definitions below follow the words of
  sections 3, 4.1 and 7 of the specification. Doubles are read here as the real numbers
  they denote, so NaN, the infinities and rounding are outside this model.

  With \<open>auto_range\<close>, each axis runs from the minimum to the maximum of its samples; an
  axis whose samples are all equal is expanded symmetrically by a margin. The
  specification leaves the margin open ("a fixed absolute epsilon or a fraction of the
  value's magnitude"), so it is the parameter \<open>margin\<close>, a function of the value.
  Without \<open>auto_range\<close> the bounds of the options are used and \<open>min \<ge> max\<close> on either
  axis is \<open>InvalidRange\<close>. A Sample Set is non-empty (section 3); an empty sequence
  is \<open>EmptyInput\<close>.
\<close>

datatype RenderError =
  EmptyInput | LengthMismatch | InvalidDimensions | InvalidRange | IoError | EncodeError

record ResolvedRange =
  x_min :: real
  x_max :: real
  y_min :: real
  y_max :: real





section \<open>The Coordinate Mapper and the marker of the renderer\<close>









section \<open>Properties of ScatterOptions\<close>

text \<open>
  Claim C4. A default-constructed \<open>ScatterOptions\<close> has width 800, height 600, marker
  radius 5, automatic ranging switched on, and the bounds \<open>x_min = 0.0\<close>, \<open>x_max = 1.0\<close>,
  \<open>y_min = 0.0\<close>, \<open>y_max = 1.0\<close>.
\<close>

theorem ScatterOptions_default_fields:
  "ScatterOptions.width (ScatterOptions_default :: ('d::zero_neq_one) ScatterOptions) = 800
   \<and> ScatterOptions.height (ScatterOptions_default :: 'd ScatterOptions) = 600
   \<and> markerRadius (ScatterOptions_default :: 'd ScatterOptions) = 5
   \<and> autoRange (ScatterOptions_default :: 'd ScatterOptions) = True
   \<and> xMin (ScatterOptions_default :: 'd ScatterOptions) = 0
   \<and> xMax (ScatterOptions_default :: 'd ScatterOptions) = 1
   \<and> yMin (ScatterOptions_default :: 'd ScatterOptions) = 0
   \<and> yMax (ScatterOptions_default :: 'd ScatterOptions) = 1"
  by (simp add: ScatterOptions_default_def)

text \<open>
  Claim C8. \<open>setXRange min max\<close> sets \<open>xMin\<close> and \<open>xMax\<close> to its arguments and switches
  \<open>autoRange\<close> off, and leaves width, height, marker radius, \<open>yMin\<close> and \<open>yMax\<close> as they
  were; \<open>setYRange\<close> does the same for the y bounds. \<open>setSize\<close>, \<open>setMarkerRadius\<close>
  and \<open>setAutoRange\<close> change the fields they name and no other.
\<close>

theorem setters_frame:
  "(xMin (setXRange mn mx s) = mn \<and> xMax (setXRange mn mx s) = mx
      \<and> autoRange (setXRange mn mx s) = False
      \<and> ScatterOptions.width (setXRange mn mx s) = ScatterOptions.width s
      \<and> ScatterOptions.height (setXRange mn mx s) = ScatterOptions.height s
      \<and> markerRadius (setXRange mn mx s) = markerRadius s
      \<and> yMin (setXRange mn mx s) = yMin s \<and> yMax (setXRange mn mx s) = yMax s)
   \<and> (yMin (setYRange mn mx s) = mn \<and> yMax (setYRange mn mx s) = mx
      \<and> autoRange (setYRange mn mx s) = False
      \<and> ScatterOptions.width (setYRange mn mx s) = ScatterOptions.width s
      \<and> ScatterOptions.height (setYRange mn mx s) = ScatterOptions.height s
      \<and> markerRadius (setYRange mn mx s) = markerRadius s
      \<and> xMin (setYRange mn mx s) = xMin s \<and> xMax (setYRange mn mx s) = xMax s)
   \<and> (ScatterOptions.width (setSize w h s) = w \<and> ScatterOptions.height (setSize w h s) = h
      \<and> markerRadius (setSize w h s) = markerRadius s
      \<and> autoRange (setSize w h s) = autoRange s
      \<and> xMin (setSize w h s) = xMin s \<and> xMax (setSize w h s) = xMax s
      \<and> yMin (setSize w h s) = yMin s \<and> yMax (setSize w h s) = yMax s)
   \<and> (markerRadius (setMarkerRadius r s) = r
      \<and> ScatterOptions.width (setMarkerRadius r s) = ScatterOptions.width s
      \<and> ScatterOptions.height (setMarkerRadius r s) = ScatterOptions.height s
      \<and> autoRange (setMarkerRadius r s) = autoRange s
      \<and> xMin (setMarkerRadius r s) = xMin s \<and> xMax (setMarkerRadius r s) = xMax s
      \<and> yMin (setMarkerRadius r s) = yMin s \<and> yMax (setMarkerRadius r s) = yMax s)
   \<and> (autoRange (setAutoRange b s) = b
      \<and> ScatterOptions.width (setAutoRange b s) = ScatterOptions.width s
      \<and> ScatterOptions.height (setAutoRange b s) = ScatterOptions.height s
      \<and> markerRadius (setAutoRange b s) = markerRadius s
      \<and> xMin (setAutoRange b s) = xMin s \<and> xMax (setAutoRange b s) = xMax s
      \<and> yMin (setAutoRange b s) = yMin s \<and> yMax (setAutoRange b s) = yMax s)"
  by (simp add: setXRange_def setYRange_def setSize_def setMarkerRadius_def setAutoRange_def)

text \<open>
  Claim C9. \<open>toCOptions\<close> copies width, height, marker radius and the four bounds
  unchanged, and turns the boolean \<open>autoRange\<close> into the integer \<open>auto_range\<close>, which is
  1 exactly when \<open>autoRange\<close> is true and 0 exactly when it is false. The object itself
  is not modified: \<open>toCOptions\<close> is a function of the object that returns only the C
  struct.
\<close>

theorem toCOptions_fields:
  "PlotOptions.width (toCOptions s :: ('i::zero_neq_one, 'd) PlotOptions) = ScatterOptions.width s
   \<and> PlotOptions.height (toCOptions s :: ('i, 'd) PlotOptions) = ScatterOptions.height s
   \<and> marker_radius (toCOptions s :: ('i, 'd) PlotOptions) = markerRadius s
   \<and> PlotOptions.x_min (toCOptions s :: ('i, 'd) PlotOptions) = xMin s
   \<and> PlotOptions.x_max (toCOptions s :: ('i, 'd) PlotOptions) = xMax s
   \<and> PlotOptions.y_min (toCOptions s :: ('i, 'd) PlotOptions) = yMin s
   \<and> PlotOptions.y_max (toCOptions s :: ('i, 'd) PlotOptions) = yMax s
   \<and> (auto_range (toCOptions s :: ('i, 'd) PlotOptions) = 1) = autoRange s
   \<and> (auto_range (toCOptions s :: ('i, 'd) PlotOptions) = 0) = (\<not> autoRange s)"
  by (simp add: toCOptions_def)

section \<open>Properties of scatterPng\<close>

text \<open>
  Claim C1. For two empty vectors \<open>scatterPng\<close> throws a \<open>PlotError\<close> whose message
  speaks of zero points, and it makes no foreign call at all: the world and the log of
  calls are as before, so \<open>plot_scatter_png\<close> was never invoked.
\<close>

theorem scatterPng_empty:
  "scatterPng lib path [] [] options st
     = (Inl (PlotError ''Cannot create scatter plot with zero points''), st)
   \<and> sublist ''zero points'' ''Cannot create scatter plot with zero points''"
proof -
  have "''Cannot create scatter plot with zero points''
          = ''Cannot create scatter plot with '' @ ''zero points'' @ []"
    by simp
  then have "sublist ''zero points'' ''Cannot create scatter plot with zero points''"
    unfolding sublist_def by blast
  then show ?thesis
    by (simp add: scatterPng_def)
qed

text \<open>
  Claim C2. When the two vectors differ in length, \<open>scatterPng\<close> throws the
  \<open>PlotError\<close> of the size check and makes no foreign call: the world and the log of
  calls are as before, so nothing was rendered or written.
\<close>

theorem scatterPng_length_mismatch:
  "length xs \<noteq> length ys \<Longrightarrow>
   scatterPng lib path xs ys options st
     = (Inl (PlotError ''X and Y coordinate vectors must have the same size''), st)"
  by (simp add: scatterPng_def)

theorem scatterPng_length_mismatch_witness:
  "length [1, 2 :: real] \<noteq> length [3 :: real]
   \<and> scatterPng lib_reporting ''out.png'' [1, 2 :: real] [3] ScatterOptions_default (start None)
       = (Inl (PlotError ''X and Y coordinate vectors must have the same size''), start None)"
  using scatterPng_length_mismatch
          [of "[1, 2 :: real]" "[3]" lib_reporting "''out.png''" ScatterOptions_default "start None"]
  by simp

text \<open>
  Claim C3. For non-empty vectors of equal length, \<open>scatterPng\<close> calls
  \<open>plot_scatter_png\<close> (with the path, the vectors, their length and the converted
  options, in the current world) and returns normally if and only if the status of that
  call is 0; whenever the status is not 0 it throws a \<open>PlotError\<close>.
\<close>

theorem scatterPng_status:
  assumes "xs \<noteq> []" and "length xs = length ys"
  shows "((\<exists>st'. scatterPng lib path xs ys options st = (Inr (), st'))
            \<longleftrightarrow> fst (plot_scatter_png lib path xs ys (length xs) (toCOptions options) (world st)) = 0)
         \<and> (fst (plot_scatter_png lib path xs ys (length xs) (toCOptions options) (world st)) \<noteq> 0
            \<longrightarrow> (\<exists>m st'. scatterPng lib path xs ys options st = (Inl (PlotError m), st')))"
  using assms
  by (auto simp: scatterPng_def Let_def call_plot_scatter_png_def
                 call_plot_last_error_message_def
           split: prod.splits option.splits)

theorem scatterPng_status_witness:
  "([1, 2, 3 :: real] \<noteq> [] \<and> length [1, 2, 3 :: real] = length [1, 2, 3 :: real])
   \<and> (\<exists>st'. scatterPng lib_reporting ''a.png'' [1, 2, 3 :: real] [1, 2, 3] ScatterOptions_default
               (start None) = (Inr (), st'))
   \<and> fst (plot_scatter_png lib_reporting ''a.png'' [1, 2, 3 :: real] [1, 2, 3]
            (length [1, 2, 3 :: real]) (toCOptions ScatterOptions_default) (world (start None))) = 0
   \<and> fst (plot_scatter_png lib_reporting ''a.png'' [1, 2, 3 :: real] [1, 2, 3]
            (length [1, 2, 3 :: real]) (toCOptions (setSize 0 600 ScatterOptions_default))
            (world (start None))) \<noteq> 0
   \<and> (\<exists>m st'. scatterPng lib_reporting ''a.png'' [1, 2, 3 :: real] [1, 2, 3]
                 (setSize 0 600 ScatterOptions_default) (start None) = (Inl (PlotError m), st'))"
proof -
  have ne: "[1, 2, 3 :: real] \<noteq> []" and len: "length [1, 2, 3 :: real] = length [1, 2, 3 :: real]"
    by simp_all
  have ok: "fst (plot_scatter_png lib_reporting ''a.png'' [1, 2, 3 :: real] [1, 2, 3]
                   (length [1, 2, 3 :: real]) (toCOptions ScatterOptions_default)
                   (world (start None))) = 0"
    by (simp add: lib_reporting_def toCOptions_def ScatterOptions_default_def)
  have bad: "fst (plot_scatter_png lib_reporting ''a.png'' [1, 2, 3 :: real] [1, 2, 3]
                    (length [1, 2, 3 :: real]) (toCOptions (setSize 0 600 ScatterOptions_default))
                    (world (start None))) \<noteq> 0"
    by (simp add: lib_reporting_def toCOptions_def ScatterOptions_default_def setSize_def)
  from scatterPng_status [OF ne len, of lib_reporting "''a.png''" ScatterOptions_default "start None"] ok
  have r1: "\<exists>st'. scatterPng lib_reporting ''a.png'' [1, 2, 3 :: real] [1, 2, 3]
                    ScatterOptions_default (start None) = (Inr (), st')"
    by blast
  from scatterPng_status [OF ne len, of lib_reporting "''a.png''"
                            "setSize 0 600 ScatterOptions_default" "start None"] bad
  have r2: "\<exists>m st'. scatterPng lib_reporting ''a.png'' [1, 2, 3 :: real] [1, 2, 3]
                      (setSize 0 600 ScatterOptions_default) (start None) = (Inl (PlotError m), st')"
    by blast
  from ne len ok bad r1 r2 show ?thesis by blast
qed

text \<open>
  Claim C7. When \<open>plot_scatter_png\<close> returns a status other than 0 and
  \<open>plot_last_error_message\<close> then returns the null pointer, \<open>scatterPng\<close> throws the
  \<open>PlotError\<close> with the fixed message "Plot failed with unknown error"; when it returns
  a message, the \<open>PlotError\<close> carries that message behind the prefix "Plot failed: ".
  Both branches are total in the model: the null pointer is never read as a string.
\<close>

theorem scatterPng_error_message:
  assumes "xs \<noteq> []" and "length xs = length ys"
    and "plot_scatter_png lib path xs ys (length xs) (toCOptions options) (world st) = (status, w1)"
    and "status \<noteq> 0"
    and "plot_last_error_message lib w1 = (errorMsg, w2)"
  shows "fst (scatterPng lib path xs ys options st)
           = Inl (PlotError (case errorMsg of
                               None \<Rightarrow> ''Plot failed with unknown error''
                             | Some msg \<Rightarrow> ''Plot failed: '' @ msg))"
  using assms
  by (simp add: scatterPng_def Let_def call_plot_scatter_png_def
                call_plot_last_error_message_def
           split: option.splits)

theorem scatterPng_error_message_witness:
  "fst (scatterPng lib_silent ''a.png'' [1 :: real] [2] ScatterOptions_default (start ()))
     = Inl (PlotError ''Plot failed with unknown error'')
   \<and> fst (scatterPng lib_reporting ''a.png'' [1 :: real] [2] (setSize 0 0 ScatterOptions_default)
           (start None))
     = Inl (PlotError ''Plot failed: width and height must be positive'')"
proof -
  have ne: "[1 :: real] \<noteq> []" and len: "length [1 :: real] = length [2 :: real]"
    by simp_all
  have one: "(1 :: c_int) \<noteq> 0" by simp
  have a1: "plot_scatter_png lib_silent ''a.png'' [1 :: real] [2] (length [1 :: real])
              (toCOptions ScatterOptions_default) (world (start ())) = (1, ())"
    by (simp add: lib_silent_def)
  have a2: "plot_last_error_message (lib_silent :: (c_int, real, unit) plotffi) () = (None, ())"
    by (simp add: lib_silent_def)
  have b1: "plot_scatter_png lib_reporting ''a.png'' [1 :: real] [2] (length [1 :: real])
              (toCOptions (setSize 0 0 ScatterOptions_default)) (world (start None))
              = (1, Some ''width and height must be positive'')"
    by (simp add: lib_reporting_def toCOptions_def setSize_def)
  have b2: "plot_last_error_message (lib_reporting :: (c_int, real, string option) plotffi)
              (Some ''width and height must be positive'')
              = (Some ''width and height must be positive'', Some ''width and height must be positive'')"
    by (simp add: lib_reporting_def)
  from scatterPng_error_message [OF ne len a1 one a2] scatterPng_error_message [OF ne len b1 one b2]
  show ?thesis by simp
qed

text \<open>
  Claim C10. No setter rejects an argument: \<open>setSize\<close> takes a zero width or height,
  and \<open>setXRange\<close> and \<open>setYRange\<close> take bounds with \<open>max \<le> min\<close>, so an options
  object may hold values that break \<open>width > 0\<close> or \<open>x_min < x_max\<close>. \<open>scatterPng\<close>
  does not look at them either: for non-empty vectors of equal length and any options
  at all, its first foreign call is \<open>plot_scatter_png\<close> with exactly the converted
  options, a zero width included, so the dimensions and ranges are first examined there.
\<close>

theorem setters_accept_all_validation_deferred:
  fixes mn mx :: "'d::ord" and s options :: "'d ScatterOptions"
    and lib :: "('i::zero_neq_one, 'd, 'w) plotffi"
  shows
  "ScatterOptions.width (setSize 0 h s) = 0
   \<and> ScatterOptions.height (setSize w 0 s) = 0
   \<and> PlotOptions.width (toCOptions (setSize 0 h s) :: ('i, 'd) PlotOptions) = 0
   \<and> PlotOptions.height (toCOptions (setSize w 0 s) :: ('i, 'd) PlotOptions) = 0
   \<and> (mx \<le> mn \<longrightarrow>
        xMin (setXRange mn mx s) = mn \<and> xMax (setXRange mn mx s) = mx
        \<and> \<not> autoRange (setXRange mn mx s)
        \<and> yMin (setYRange mn mx s) = mn \<and> yMax (setYRange mn mx s) = mx
        \<and> \<not> autoRange (setYRange mn mx s))
   \<and> (xs \<noteq> [] \<and> length xs = length ys \<longrightarrow>
        prefix (calls st @ [Plot_scatter_png path xs ys (length xs) (toCOptions options)])
               (calls (snd (scatterPng lib path xs ys options st))))"
  by (auto simp: setSize_def setXRange_def setYRange_def toCOptions_def scatterPng_def Let_def
                 call_plot_scatter_png_def call_plot_last_error_message_def
           split: prod.splits option.splits)

theorem setters_accept_all_validation_deferred_witness:
  "(0 :: real) \<le> 1
   \<and> xMin (setXRange 1 0 (ScatterOptions_default :: real ScatterOptions)) = 1
   \<and> xMax (setXRange 1 0 (ScatterOptions_default :: real ScatterOptions)) = 0
   \<and> \<not> autoRange (setXRange 1 0 (ScatterOptions_default :: real ScatterOptions))
   \<and> [7 :: real] \<noteq> [] \<and> length [7 :: real] = length [9 :: real]
   \<and> prefix (calls (start (None :: string option)) @
               [Plot_scatter_png ''a.png'' [7] [9] (length [7 :: real])
                  (toCOptions (setSize 0 0 (setXRange 1 0 ScatterOptions_default)))])
             (calls (snd (scatterPng lib_reporting ''a.png'' [7 :: real] [9]
                            (setSize 0 0 (setXRange 1 0 ScatterOptions_default)) (start None))))"
proof -
  have le: "(0 :: real) \<le> 1" and ne: "[7 :: real] \<noteq> []"
    and len: "length [7 :: real] = length [9 :: real]"
    by simp_all
  from setters_accept_all_validation_deferred
         [where mn = "1 :: real" and mx = 0 and s = ScatterOptions_default and xs = "[7]"
            and w = 0 and h = 0
            and ys = "[9]" and st = "start None" and path = "''a.png''" and lib = lib_reporting
            and options = "setSize 0 0 (setXRange 1 0 ScatterOptions_default)"]
       le ne len
  show ?thesis by blast
qed

section \<open>Properties of the Range Resolver\<close>








subsection \<open>The mapper keeps samples in the drawable region\<close>











end
